theory Spec2Isabelle
  imports Complex_Main "HOL-Library.AList"
begin

section \<open>The prediction demo of the Network API (network\_api\_demo\_prediction.py)\<close>

text \<open>
  The file is a Python 2 script (\<^verbatim>\<open>print\<close> statements, \<^verbatim>\<open>xrange\<close>). Its own code is
  \<^verbatim>\<open>createEncoder\<close>, \<^verbatim>\<open>createNetwork\<close> and \<^verbatim>\<open>runNetwork\<close>; the NuPIC engine, the
  encoders, the record stream and the module \<^verbatim>\<open>random\<close> are used through their
  interfaces only and enter the model as parameters.

  A Python float is a finite value, an infinity or NaN. Finite values are modelled as
  real numbers and arithmetic on them is exact: the rounding and the overflow of IEEE
  doubles are not modelled. Infinities and NaN subtract and compare as IEEE 754 has it.
\<close>

subsection \<open>Exceptions and list access\<close>

datatype error =
    ValueError string
  | IndexError string
  | KeyError string
  | EngineError string

text \<open>Python list indexing: a negative index counts from the end, anything else out of
  range raises IndexError.\<close>

definition py_index :: "'a list \<Rightarrow> int \<Rightarrow> error + 'a" where
  "py_index xs i =
     (if 0 \<le> i \<and> i < int (length xs) then Inr (xs ! nat i)
      else if i < 0 \<and> - int (length xs) \<le> i then Inr (xs ! nat (int (length xs) + i))
      else Inl (IndexError ''list index out of range''))"

subsection \<open>Floats\<close>

datatype pyfloat = Fin real | PosInf | NegInf | NaN

text \<open>\<^verbatim>\<open>x - y\<close> on floats: NaN is absorbing, and the difference of equal infinities is
  NaN.\<close>

fun fsub :: "pyfloat \<Rightarrow> pyfloat \<Rightarrow> pyfloat" where
  "fsub (Fin a) (Fin b) = Fin (a - b)"
| "fsub (Fin a) PosInf = NegInf"
| "fsub (Fin a) NegInf = PosInf"
| "fsub PosInf (Fin b) = PosInf"
| "fsub PosInf NegInf = PosInf"
| "fsub PosInf PosInf = NaN"
| "fsub NegInf (Fin b) = NegInf"
| "fsub NegInf PosInf = NegInf"
| "fsub NegInf NegInf = NaN"
| "fsub NaN y = NaN"
| "fsub x NaN = NaN"

text \<open>\<^verbatim>\<open>x < y\<close> on floats: every comparison with NaN is false.\<close>

fun flt :: "pyfloat \<Rightarrow> pyfloat \<Rightarrow> bool" where
  "flt (Fin a) (Fin b) = (a < b)"
| "flt (Fin a) PosInf = True"
| "flt NegInf (Fin b) = True"
| "flt NegInf PosInf = True"
| "flt x y = False"

fun isFinite :: "pyfloat \<Rightarrow> bool" where
  "isFinite (Fin a) = True"
| "isFinite x = False"

subsection \<open>Builtins used by the selection step\<close>

text \<open>The builtin \<^verbatim>\<open>max\<close> on a list: ValueError on the empty list, otherwise a left to
  right scan that replaces the running maximum by an item that compares greater. With
  NaN in the list the result depends on the order: \<^verbatim>\<open>max([nan, 0.5])\<close> is NaN and
  \<^verbatim>\<open>max([0.5, nan])\<close> is 0.5.\<close>

fun py_max :: "pyfloat list \<Rightarrow> error + pyfloat" where
  "py_max [] = Inl (ValueError ''max() arg is an empty sequence'')"
| "py_max (x # xs) = Inr (fold (\<lambda>item m. if flt m item then item else m) xs x)"

text \<open>\<^verbatim>\<open>random.randint(a, b)\<close> is \<^verbatim>\<open>randrange(a, b + 1)\<close>: it raises ValueError on an empty
  range before the generator is touched, and otherwise draws. The generator itself is a
  parameter: \<open>draw g a b\<close> is the value drawn from state \<open>g\<close> and the state after it.\<close>

definition py_randint ::
  "('g \<Rightarrow> int \<Rightarrow> int \<Rightarrow> int \<times> 'g) \<Rightarrow> 'g \<Rightarrow> int \<Rightarrow> int \<Rightarrow> (error + int) \<times> 'g" where
  "py_randint draw g a b =
     (if a \<le> b then (case draw g a b of (r, g') \<Rightarrow> (Inr r, g'))
      else (Inl (ValueError ''empty range for randrange()''), g))"

subsection \<open>The selection step of runNetwork (lines 223 to 228)\<close>

text \<open>\<^verbatim>\<open>epsilon = .00001\<close>\<close>

definition epsilon :: real where
  "epsilon = 0.00001"

text \<open>
  \<^verbatim>\<open>candidates = [actualValues[i] for i in xrange(len(actualValues))
                 if (probabilities[i] - pMax) < epsilon]\<close>
  The comprehension walks the indices of \<^verbatim>\<open>actualValues\<close>; reading \<^verbatim>\<open>probabilities[i]\<close>
  beyond the end of \<^verbatim>\<open>probabilities\<close> raises IndexError.
\<close>

fun candidatesLoop ::
  "pyfloat list \<Rightarrow> pyfloat list \<Rightarrow> pyfloat \<Rightarrow> nat list \<Rightarrow> error + pyfloat list" where
  "candidatesLoop actualValues probabilities pMax [] = Inr []"
| "candidatesLoop actualValues probabilities pMax (i # rest) =
     (if length probabilities \<le> i then Inl (IndexError ''list index out of range'')
      else (case candidatesLoop actualValues probabilities pMax rest of
              Inl e \<Rightarrow> Inl e
            | Inr cs \<Rightarrow>
                Inr (if flt (fsub (probabilities ! i) pMax) (Fin epsilon)
                     then actualValues ! i # cs else cs)))"

text \<open>Lines 223 to 226: \<^verbatim>\<open>pMax = max(probabilities)\<close>, then the comprehension.\<close>

definition tieCandidates :: "pyfloat list \<Rightarrow> pyfloat list \<Rightarrow> error + pyfloat list" where
  "tieCandidates actualValues probabilities =
     (case py_max probabilities of
        Inl e \<Rightarrow> Inl e
      | Inr pMax \<Rightarrow>
          candidatesLoop actualValues probabilities pMax [0..<length actualValues])"

text \<open>Line 228: \<^verbatim>\<open>prediction = candidates[random.randint(0, len(candidates) - 1)]\<close>.\<close>

definition selectPrediction ::
  "('g \<Rightarrow> int \<Rightarrow> int \<Rightarrow> int \<times> 'g) \<Rightarrow> pyfloat list \<Rightarrow> pyfloat list \<Rightarrow> 'g \<Rightarrow>
   (error + pyfloat) \<times> 'g" where
  "selectPrediction draw actualValues probabilities g =
     (case tieCandidates actualValues probabilities of
        Inl e \<Rightarrow> (Inl e, g)
      | Inr candidates \<Rightarrow>
          (case py_randint draw g 0 (int (length candidates) - 1) of
             (Inl e, g') \<Rightarrow> (Inl e, g')
           | (Inr r, g') \<Rightarrow> (py_index candidates r, g')))"

text \<open>
  The candidate set as the specification words it (section 4.3, steps 1 and 2):
  \<open>pMax\<close> is the maximum of the probabilities and a candidate is kept when
  \<open>pMax - probabilities[i] < \<epsilon>\<close>, over probabilities that are non-negative weights.
  This definition follows the specification, not the code, and is what the code's list
  is compared with.
\<close>

definition spec_tieSet :: "'a list \<Rightarrow> real list \<Rightarrow> 'a set" where
  "spec_tieSet candidates probabilities =
     set (map fst (filter (\<lambda>cp. Max (set probabilities) - snd cp < epsilon)
                          (zip candidates probabilities)))"

subsection \<open>The driving loop of runNetwork (lines 200 to 230)\<close>

text \<open>\<^verbatim>\<open>_NUM_RECORDS = 2000\<close>\<close>

definition NUM_RECORDS :: nat where
  "NUM_RECORDS = 2000"

text \<open>
  What \<^verbatim>\<open>runNetwork\<close> uses of its collaborators: the lookup \<^verbatim>\<open>network.regions[name]\<close>,
  \<^verbatim>\<open>network.run(n)\<close> (which may raise and leaves a network state behind either way),
  \<^verbatim>\<open>region.getOutputData(name)\<close> as a list, and the generator behind \<^verbatim>\<open>random.randint\<close>.
\<close>

record ('n, 'g) collaborators =
  hasRegion :: "'n \<Rightarrow> string \<Rightarrow> bool"
  network_run :: "'n \<Rightarrow> nat \<Rightarrow> error option \<times> 'n"
  getOutputData :: "'n \<Rightarrow> string \<Rightarrow> string \<Rightarrow> pyfloat list"
  draw :: "'g \<Rightarrow> int \<Rightarrow> int \<Rightarrow> int \<times> 'g"

text \<open>A row handed to \<^verbatim>\<open>writer.writerow\<close>: \<^verbatim>\<open>(i, consumption, prediction)\<close>.\<close>

type_synonym row = "int \<times> pyfloat \<times> pyfloat"

text \<open>The state the loop works on: the network, the generator of module \<^verbatim>\<open>random\<close>, and
  the rows the writer has received so far.\<close>

record ('n, 'g) world =
  net :: 'n
  gen :: 'g
  written :: "row list"

text \<open>Lines 206 to 209: four lookups in \<^verbatim>\<open>network.regions\<close>, in order; the first missing
  name raises.\<close>

fun lookupRegions :: "('n \<Rightarrow> string \<Rightarrow> bool) \<Rightarrow> 'n \<Rightarrow> string list \<Rightarrow> error option" where
  "lookupRegions has n [] = None"
| "lookupRegions has n (r # rs) = (if has n r then lookupRegions has n rs else Some (KeyError r))"

text \<open>
  Lines 219 to 221:
  \<^verbatim>\<open>consumption = sensorRegion.getOutputData("sourceOut")[0]\<close>, then the classifier's
  \<^verbatim>\<open>actualValues\<close> and \<^verbatim>\<open>probabilities\<close> as lists.
\<close>

definition readOutputs ::
  "('n, 'g) collaborators \<Rightarrow> 'n \<Rightarrow> error + (pyfloat \<times> pyfloat list \<times> pyfloat list)" where
  "readOutputs c n =
     (case py_index (getOutputData c n ''sensor'' ''sourceOut'') 0 of
        Inl e \<Rightarrow> Inl e
      | Inr consumption \<Rightarrow>
          Inr (consumption,
               getOutputData c n ''SDRClassifierRegion'' ''actualValues'',
               getOutputData c n ''SDRClassifierRegion'' ''probabilities''))"

text \<open>
  The first field of the row is the variable \<^verbatim>\<open>i\<close>. In Python 2 the loop variable of a
  list comprehension lives in the enclosing function's scope, and the comprehension of
  line 225 is also over \<^verbatim>\<open>i\<close>: when \<^verbatim>\<open>writerow\<close> is reached, \<^verbatim>\<open>i\<close> holds the last
  index of \<^verbatim>\<open>actualValues\<close>, not the tick number (the \<^verbatim>\<open>for\<close> statement rebinds it from
  its own iterator at the next tick). With an empty \<^verbatim>\<open>actualValues\<close> the comprehension
  binds nothing and \<^verbatim>\<open>i\<close> stays the tick number.
\<close>

definition rowIndex :: "nat \<Rightarrow> pyfloat list \<Rightarrow> int" where
  "rowIndex i actualValues =
     (if actualValues = [] then int i else int (length actualValues) - 1)"

text \<open>
  One pass through the loop body (lines 215 to 230). An exception leaves the body at
  the statement that raised it; the result carries the state reached at that point.
\<close>

definition tick ::
  "('n, 'g) collaborators \<Rightarrow> nat \<Rightarrow> ('n, 'g) world \<Rightarrow> error option \<times> ('n, 'g) world" where
  "tick c i w =
     (case network_run c (net w) 1 of
        (Some e, n') \<Rightarrow> (Some e, w\<lparr>net := n'\<rparr>)
      | (None, n') \<Rightarrow>
          (case readOutputs c n' of
             Inl e \<Rightarrow> (Some e, w\<lparr>net := n'\<rparr>)
           | Inr (consumption, actualValues, probabilities) \<Rightarrow>
               (case selectPrediction (draw c) actualValues probabilities (gen w) of
                  (Inl e, g') \<Rightarrow> (Some e, w\<lparr>net := n', gen := g'\<rparr>)
                | (Inr prediction, g') \<Rightarrow>
                    (None, w\<lparr>net := n', gen := g',
                              written := written w @
                                [(rowIndex i actualValues, consumption, prediction)]\<rparr>))))"

text \<open>\<^verbatim>\<open>for i in xrange(...)\<close>: the ticks in order; an exception ends the loop, since the
  body has no \<^verbatim>\<open>try\<close>.\<close>

fun runTicks ::
  "('n, 'g) collaborators \<Rightarrow> nat list \<Rightarrow> ('n, 'g) world \<Rightarrow> error option \<times> ('n, 'g) world" where
  "runTicks c [] w = (None, w)"
| "runTicks c (i # rest) w =
     (case tick c i w of
        (Some e, w') \<Rightarrow> (Some e, w')
      | (None, w') \<Rightarrow> runTicks c rest w')"

text \<open>The loop for a given record count; the script's count is the module constant.\<close>

definition runLoop ::
  "('n, 'g) collaborators \<Rightarrow> nat \<Rightarrow> ('n, 'g) world \<Rightarrow> error option \<times> ('n, 'g) world" where
  "runLoop c n w = runTicks c [0..<n] w"

definition runNetwork ::
  "('n, 'g) collaborators \<Rightarrow> ('n, 'g) world \<Rightarrow> error option \<times> ('n, 'g) world" where
  "runNetwork c w =
     (case lookupRegions (hasRegion c) (net w)
             [''sensor'', ''spatialPoolerRegion'', ''temporalPoolerRegion'',
              ''SDRClassifierRegion''] of
        Some e \<Rightarrow> (Some e, w)
      | None \<Rightarrow> runLoop c NUM_RECORDS w)"




text \<open>
  Two small engines on which the loop can be evaluated. The first counts records in a
  natural number, reports the count as consumption, fails at a chosen count, and draws
  from a counter; the second keeps the pending consumption values in a list and draws
  from a scripted list of values. Both classify with the same fixed vectors.
\<close>

definition sampleEngine :: "nat \<Rightarrow> (nat, nat) collaborators" where
  "sampleEngine stop =
     \<lparr>hasRegion = (\<lambda>n r. True),
      network_run = (\<lambda>n k. if n = stop then (Some (EngineError ''no more records''), n)
                             else (None, n + k)),
      getOutputData = (\<lambda>n region out.
         if out = ''sourceOut'' then [Fin (real n)]
         else if out = ''actualValues'' then [Fin 10, Fin 20, Fin 30]
         else [Fin 0.5, Fin 0.9, Fin 0.9]),
      draw = (\<lambda>g a b. (a + int g mod (b - a + 1), Suc g))\<rparr>"


subsection \<open>Module parameters and createNetwork (lines 44 to 197)\<close>

text \<open>
  The three module-level dictionaries hold integers, floats and strings. A dictionary is
  an association list read with \<open>map_of\<close>; assigning to a key is \<open>AList.update\<close>, which
  replaces the value of a key that is present.
\<close>

datatype pvalue = PInt int | PFloat real | PStr string | PBool bool

type_synonym params = "(string \<times> pvalue) list"

text \<open>\<^verbatim>\<open>_VERBOSITY = 0\<close>\<close>

definition VERBOSITY :: int where
  "VERBOSITY = 0"

text \<open>The module state that \<^verbatim>\<open>createNetwork\<close> can reach, and its contents when the module
  has been loaded (lines 53 to 98).\<close>

record globals =
  SP_PARAMS :: params
  TP_PARAMS :: params
  CL_PARAMS :: params

definition moduleGlobals :: globals where
  "moduleGlobals =
     \<lparr>SP_PARAMS =
        [(''spVerbosity'', PInt VERBOSITY),
         (''spatialImp'', PStr ''cpp''),
         (''globalInhibition'', PInt 1),
         (''columnCount'', PInt 2048),
         (''inputWidth'', PInt 0),
         (''numActiveColumnsPerInhArea'', PInt 40),
         (''seed'', PInt 1956),
         (''potentialPct'', PFloat 0.8),
         (''synPermConnected'', PFloat 0.1),
         (''synPermActiveInc'', PFloat 0.0001),
         (''synPermInactiveDec'', PFloat 0.0005),
         (''maxBoost'', PFloat 1.0)],
      TP_PARAMS =
        [(''verbosity'', PInt VERBOSITY),
         (''columnCount'', PInt 2048),
         (''cellsPerColumn'', PInt 32),
         (''inputWidth'', PInt 2048),
         (''seed'', PInt 1960),
         (''temporalImp'', PStr ''cpp''),
         (''newSynapseCount'', PInt 20),
         (''maxSynapsesPerSegment'', PInt 32),
         (''maxSegmentsPerCell'', PInt 128),
         (''initialPerm'', PFloat 0.21),
         (''permanenceInc'', PFloat 0.1),
         (''permanenceDec'', PFloat 0.1),
         (''globalDecay'', PFloat 0.0),
         (''maxAge'', PInt 0),
         (''minThreshold'', PInt 9),
         (''activationThreshold'', PInt 12),
         (''outputType'', PStr ''normal''),
         (''pamLength'', PInt 3)],
      CL_PARAMS =
        [(''alpha'', PFloat 0.005),
         (''steps'', PStr ''1''),
         (''implementation'', PStr ''py''),
         (''verbosity'', PInt VERBOSITY)]\<rparr>"

text \<open>
  \<^verbatim>\<open>createEncoder\<close> (lines 102 to 112) builds a MultiEncoder of a ScalarEncoder
  (\<open>w\<close>, \<open>minval\<close>, \<open>maxval\<close>, \<open>n\<close>, \<open>name\<close>, \<open>clipInput\<close>) and a DateEncoder
  (\<open>timeOfDay\<close>, \<open>name\<close>). The encoders' classes are not part of the script: what
  \<^verbatim>\<open>getWidth\<close> returns for an encoder is a parameter of \<^verbatim>\<open>createNetwork\<close> below.
\<close>

datatype encoder =
    ScalarEncoder int real real int string bool
  | DateEncoder "int \<times> real" string

type_synonym multiEncoder = "(string \<times> encoder) list"

definition addEncoder :: "string \<Rightarrow> encoder \<Rightarrow> multiEncoder \<Rightarrow> multiEncoder" where
  "addEncoder name enc multi = multi @ [(name, enc)]"

definition createEncoder :: multiEncoder where
  "createEncoder =
     (let consumption_encoder = ScalarEncoder 21 0.0 100.0 50 ''consumption'' True;
          time_encoder = DateEncoder (21, 9.5) ''timestamp_timeOfDay'';
          encoder = [];
          encoder = addEncoder ''consumption'' consumption_encoder encoder;
          encoder = addEncoder ''timestamp'' time_encoder encoder
      in encoder)"

text \<open>
  The engine's network is modelled by what the script builds in it: the regions with
  the parameters they were created with (\<^verbatim>\<open>json.dumps\<close> hands the engine a copy of the
  dictionary as it is at the call) and the parameters set afterwards, the links, and the
  two attributes set on the sensor. The engine's calls are taken to succeed.
\<close>

record region =
  regionName :: string
  nodeType :: string
  nodeParams :: params
  parameters :: "(string \<times> bool) list"

record link =
  srcName :: string
  destName :: string
  linkType :: string
  linkParams :: string
  srcOutput :: string
  destInput :: string

record 'd network =
  regions :: "region list"
  links :: "link list"
  sensorEncoder :: "multiEncoder option"
  sensorDataSource :: "'d option"

definition Network :: "'d network" where
  "Network = \<lparr>regions = [], links = [], sensorEncoder = None, sensorDataSource = None\<rparr>"

definition addRegion :: "string \<Rightarrow> string \<Rightarrow> params \<Rightarrow> 'd network \<Rightarrow> 'd network" where
  "addRegion name ty ps nw =
     nw\<lparr>regions := regions nw @
           [\<lparr>regionName = name, nodeType = ty, nodeParams = ps, parameters = []\<rparr>]\<rparr>"

definition addLink ::
  "string \<Rightarrow> string \<Rightarrow> string \<Rightarrow> string \<Rightarrow> string \<Rightarrow> string \<Rightarrow> 'd network \<Rightarrow> 'd network" where
  "addLink src dst ty ps out inp nw =
     nw\<lparr>links := links nw @
           [\<lparr>srcName = src, destName = dst, linkType = ty, linkParams = ps,
             srcOutput = out, destInput = inp\<rparr>]\<rparr>"

definition setParameter :: "string \<Rightarrow> string \<Rightarrow> bool \<Rightarrow> 'd network \<Rightarrow> 'd network" where
  "setParameter name key v nw =
     nw\<lparr>regions := map (\<lambda>r. if regionName r = name
                                then r\<lparr>parameters := parameters r @ [(key, v)]\<rparr> else r)
                         (regions nw)\<rparr>"

text \<open>\<^verbatim>\<open>createNetwork(dataSource)\<close>, statement by statement. Line 140 assigns to a key of the
  module-level \<^verbatim>\<open>SP_PARAMS\<close>, so the function returns the module state next to the
  network.\<close>

definition createNetwork ::
  "(multiEncoder \<Rightarrow> int) \<Rightarrow> 'd \<Rightarrow> globals \<Rightarrow> 'd network \<times> globals" where
  "createNetwork getWidth dataSource g =
     (let network = Network;
          network = addRegion ''sensor'' ''py.RecordSensor'' [(''verbosity'', PInt VERBOSITY)] network;
          network = network\<lparr>sensorEncoder := Some createEncoder\<rparr>;
          network = network\<lparr>sensorDataSource := Some dataSource\<rparr>;
          g = g\<lparr>SP_PARAMS :=
                 AList.update ''inputWidth'' (PInt (getWidth createEncoder)) (SP_PARAMS g)\<rparr>;
          network = addRegion ''spatialPoolerRegion'' ''py.SPRegion'' (SP_PARAMS g) network;
          network = addLink ''sensor'' ''spatialPoolerRegion'' ''UniformLink'' '''' '''' '''' network;
          network = addLink ''sensor'' ''spatialPoolerRegion'' ''UniformLink'' ''''
                      ''resetOut'' ''resetIn'' network;
          network = addLink ''spatialPoolerRegion'' ''sensor'' ''UniformLink'' ''''
                      ''spatialTopDownOut'' ''spatialTopDownIn'' network;
          network = addLink ''spatialPoolerRegion'' ''sensor'' ''UniformLink'' ''''
                      ''temporalTopDownOut'' ''temporalTopDownIn'' network;
          network = setParameter ''spatialPoolerRegion'' ''learningMode'' True network;
          network = setParameter ''spatialPoolerRegion'' ''anomalyMode'' False network;
          network = addRegion ''temporalPoolerRegion'' ''py.TPRegion'' (TP_PARAMS g) network;
          network = addLink ''spatialPoolerRegion'' ''temporalPoolerRegion'' ''UniformLink'' ''''
                      '''' '''' network;
          network = addLink ''temporalPoolerRegion'' ''spatialPoolerRegion'' ''UniformLink'' ''''
                      ''topDownOut'' ''topDownIn'' network;
          network = setParameter ''temporalPoolerRegion'' ''topDownMode'' True network;
          network = setParameter ''temporalPoolerRegion'' ''learningMode'' True network;
          network = setParameter ''temporalPoolerRegion'' ''inferenceMode'' True network;
          network = setParameter ''temporalPoolerRegion'' ''anomalyMode'' True network;
          network = addRegion ''SDRClassifierRegion'' ''py.SDRClassifierRegion'' (CL_PARAMS g) network;
          network = addLink ''temporalPoolerRegion'' ''SDRClassifierRegion'' ''UniformLink'' ''''
                      ''bottomUpOut'' ''bottomUpIn'' network;
          network = addLink ''sensor'' ''SDRClassifierRegion'' ''UniformLink'' ''''
                      ''sourceOut'' ''categoryIn'' network;
          network = addLink ''temporalPoolerRegion'' ''SDRClassifierRegion'' ''UniformLink'' ''''
                      ''predictedActiveCells'' ''predictedActiveCells'' network;
          network = addLink ''sensor'' ''SDRClassifierRegion'' ''UniformLink'' ''''
                      ''sequenceIdOut'' ''sequenceIdIn'' network;
          network = setParameter ''SDRClassifierRegion'' ''inferenceMode'' True network;
          network = setParameter ''SDRClassifierRegion'' ''learningMode'' True network
      in (network, g))"

section \<open>Properties of the selection step\<close>

subsection \<open>What the comprehension computes\<close>

lemma py_max_scan:
  "fold (\<lambda>item m. if flt m item then item else m) (map Fin xs) (Fin x) = Fin (fold max xs x)"
  by (induction xs arbitrary: x) (simp_all add: max_def)

lemma py_max_finite:
  assumes "rs \<noteq> []"
  shows "py_max (map Fin rs) = Inr (Fin (Max (set rs)))"
proof (cases rs)
  case Nil
  with assms show ?thesis by simp
next
  case (Cons x xs)
  have "fold max xs x = Max (set (x # xs))" by (simp only: Max.set_eq_fold)
  then show ?thesis unfolding Cons by (simp only: list.map py_max.simps py_max_scan)
qed

lemma finite_floats: "\<forall>p\<in>set ps. isFinite p \<Longrightarrow> \<exists>rs. ps = map Fin rs"
proof (induction ps)
  case Nil
  then show ?case by simp
next
  case (Cons p ps)
  then obtain rs where rs: "ps = map Fin rs" by auto
  from Cons.prems obtain r where r: "p = Fin r" by (cases p) simp_all
  have "p # ps = map Fin (r # rs)" using rs r by simp
  then show ?case by (rule exI)
qed

lemma candidatesLoop_filter:
  "\<forall>i\<in>set idx. i < length ps \<Longrightarrow>
   candidatesLoop av ps m idx =
     Inr (map ((!) av) (filter (\<lambda>i. flt (fsub (ps ! i) m) (Fin epsilon)) idx))"
  by (induction idx) auto

lemma epsilon_pos: "0 < epsilon"
  by (simp add: epsilon_def)

lemma code_test_real:
  assumes "rs \<noteq> []" "i < length rs"
  shows "rs ! i - Max (set rs) < epsilon"
proof -
  have "rs ! i \<le> Max (set rs)" using assms by simp
  with epsilon_pos show ?thesis by linarith
qed

lemma code_test_finite:
  assumes "rs \<noteq> []" "i < length rs"
  shows "flt (fsub (map Fin rs ! i) (Fin (Max (set rs)))) (Fin epsilon)"
  using code_test_real [OF assms] assms(2) by simp

lemma tieCandidates_finite:
  assumes "rs \<noteq> []" "length av \<le> length rs"
  shows "tieCandidates av (map Fin rs) = Inr av"
proof -
  have keep: "filter (\<lambda>i. flt (fsub (map Fin rs ! i) (Fin (Max (set rs)))) (Fin epsilon))
                [0..<length av] = [0..<length av]"
    using assms by (auto simp: filter_id_conv code_test_real)
  have idx: "\<forall>i\<in>set [0..<length av]. i < length (map Fin rs)"
    using assms(2) by simp
  show ?thesis
    unfolding tieCandidates_def py_max_finite [OF assms(1)]
    by (simp only: sum.case candidatesLoop_filter [OF idx] keep map_nth)
qed

subsection \<open>The candidate list against the specified tie set\<close>

text \<open>
  Claim C1: for same-length lists, the candidate set computed by the selection step is
  \<open>{candidates[i] : pMax - probabilities[i] < 1e-5}\<close>. The code subtracts the other way
  round, \<^verbatim>\<open>(probabilities[i] - pMax) < epsilon\<close>, which no finite probability can fail;
  evaluated at candidates \<open>[10, 20, 30]\<close> and probabilities \<open>[0.5, 0.9, 0.9]\<close> the code
  keeps all three values, where the specified set is \<open>{20, 30}\<close>.
\<close>

theorem C1_code_keeps_low_candidate:
  "tieCandidates [Fin 10, Fin 20, Fin 30] [Fin 0.5, Fin 0.9, Fin 0.9] =
     Inr [Fin 10, Fin 20, Fin 30]
   \<and> spec_tieSet [Fin 10, Fin 20, Fin 30] [0.5, 0.9, 0.9] = {Fin 20, Fin 30}"
  by (simp add: tieCandidates_def spec_tieSet_def epsilon_def)

text \<open>
  Claim C2: the code's test \<open>probabilities[i] - pMax < \<epsilon>\<close> and the stated test
  \<open>pMax - probabilities[i] < \<epsilon>\<close> give the same candidate set. In the code they do not:
  with candidates \<open>[1, 2]\<close> and probabilities \<open>[0.25, 0.75]\<close> the first entry passes the
  code's test, which the stated test rejects, and the code's list is \<open>[1, 2]\<close> where
  the stated set is \<open>{2}\<close>.
\<close>

theorem C2_tests_differ:
  "py_max [Fin 0.25, Fin 0.75] = Inr (Fin 0.75)
   \<and> flt (fsub (Fin 0.25) (Fin 0.75)) (Fin epsilon)
   \<and> \<not> flt (fsub (Fin 0.75) (Fin 0.25)) (Fin epsilon)
   \<and> tieCandidates [Fin 1, Fin 2] [Fin 0.25, Fin 0.75] = Inr [Fin 1, Fin 2]
   \<and> spec_tieSet [Fin 1, Fin 2] [0.25, 0.75] = {Fin 2}"
  by (simp add: tieCandidates_def spec_tieSet_def epsilon_def)

text \<open>
  Claim C3: for candidates \<open>[10, 20, 30]\<close> and probabilities \<open>[0.5, 0.9, 0.9]\<close> the
  selected prediction is 20 or 30, never 10, for every random draw. In the code the
  candidate list is \<open>[10, 20, 30]\<close> and the draw ranges over \<open>0..2\<close>; when
  \<^verbatim>\<open>random.randint(0, 2)\<close> returns 0 the prediction is 10.
\<close>

theorem C3_draw_can_select_10:
  "tieCandidates [Fin 10, Fin 20, Fin 30] [Fin 0.5, Fin 0.9, Fin 0.9] =
     Inr [Fin 10, Fin 20, Fin 30]
   \<and> selectPrediction (\<lambda>g a b. (0, g)) [Fin 10, Fin 20, Fin 30]
        [Fin 0.5, Fin 0.9, Fin 0.9] () = (Inr (Fin 10), ())"
  by (simp add: selectPrediction_def tieCandidates_def epsilon_def py_randint_def py_index_def)

text \<open>
  Claim C4: for candidates \<open>[10, 20, 30]\<close> and probabilities \<open>[0.2, 0.79999, 0.8]\<close> the
  computed tie set is exactly \<open>{20, 30}\<close>, the boundary being decided by a strict
  comparison of the gap with \<open>\<epsilon>\<close>. The code decides no boundary: its list at that
  input is \<open>[10, 20, 30]\<close>, with the candidate 10 whose probability is 0.6 below the
  maximum, and it is the same list with \<open>0.799995\<close> in place of \<open>0.79999\<close>.
\<close>

theorem C4_code_keeps_10_on_both_sides:
  "tieCandidates [Fin 10, Fin 20, Fin 30] [Fin 0.2, Fin 0.79999, Fin 0.8] =
     Inr [Fin 10, Fin 20, Fin 30]
   \<and> tieCandidates [Fin 10, Fin 20, Fin 30] [Fin 0.2, Fin 0.799995, Fin 0.8] =
     Inr [Fin 10, Fin 20, Fin 30]
   \<and> Fin 10 \<in> set [Fin 10, Fin 20, Fin 30]
   \<and> Fin 10 \<notin> {Fin 20, Fin 30}"
  by (simp add: tieCandidates_def epsilon_def)

subsection \<open>Failure and success of the draw\<close>

text \<open>
  Claim C6: if the computed candidate list is empty, the selection step fails with
  EmptyCandidateSetError. The code has no check of the candidate list and no error of
  its own: with probabilities \<open>[nan, 0.5]\<close> the maximum is NaN, no candidate passes the
  test, and what is raised is the ValueError of \<^verbatim>\<open>random.randint(0, -1)\<close>, the exception
  class that \<^verbatim>\<open>max\<close> raises on an empty list of probabilities.
\<close>

theorem C6_failure_is_ValueError_of_randint:
  "tieCandidates [Fin 10, Fin 20] [NaN, Fin 0.5] = Inr []
   \<and> selectPrediction (\<lambda>g a b. (a, g)) [Fin 10, Fin 20] [NaN, Fin 0.5] () =
       (Inl (ValueError ''empty range for randrange()''), ())
   \<and> selectPrediction (\<lambda>g a b. (a, g)) [] [] () =
       (Inl (ValueError ''max() arg is an empty sequence''), ())"
  by (simp add: selectPrediction_def tieCandidates_def py_randint_def)

text \<open>
  Claim C6, as amended: if the computed candidate list is empty, the selection step
  fails with the ValueError that \<^verbatim>\<open>random.randint(0, -1)\<close> raises for its empty range,
  before the generator is used; it returns no value and picks no default.
\<close>

theorem C6_empty_candidates_raise:
  assumes "tieCandidates actualValues probabilities = Inr []"
  shows "selectPrediction rnd actualValues probabilities g =
           (Inl (ValueError ''empty range for randrange()''), g)"
  using assms by (simp add: selectPrediction_def py_randint_def)

theorem C6_empty_candidates_raise_witness:
  "tieCandidates [Fin 10, Fin 20] [PosInf, PosInf] = Inr []
   \<and> selectPrediction (\<lambda>g a b. (a, g)) [Fin 10, Fin 20] [PosInf, PosInf] () =
       (Inl (ValueError ''empty range for randrange()''), ())"
proof -
  have h: "tieCandidates [Fin 10, Fin 20] [PosInf, PosInf] = Inr []"
    by (simp add: tieCandidates_def)
  show ?thesis using h C6_empty_candidates_raise [OF h, of "\<lambda>g a b. (a, g)" "()"] by simp
qed

text \<open>
  Claim C9: under the code's comparison every index of a non-empty probabilities list
  passes the test, whatever the probability values, so the computed list is the whole
  of \<^verbatim>\<open>actualValues\<close> and the selection never raises. Not for every float: with
  probabilities \<open>[inf, 1.0]\<close> the difference at the maximum is NaN and only the other
  candidate is kept, and with \<open>[inf, inf]\<close> and with \<open>[nan, 0.5]\<close> no candidate is kept
  and the selection raises.
\<close>

theorem C9_infinity_and_nan_fail_the_test:
  "tieCandidates [Fin 10, Fin 20] [PosInf, Fin 1] = Inr [Fin 20]
   \<and> tieCandidates [Fin 10, Fin 20] [PosInf, PosInf] = Inr []
   \<and> fst (selectPrediction (\<lambda>g a b. (a, g)) [Fin 10, Fin 20] [PosInf, PosInf] ()) =
       Inl (ValueError ''empty range for randrange()'')
   \<and> \<not> flt (fsub NaN NaN) (Fin epsilon)
   \<and> fst (selectPrediction (\<lambda>g a b. (a, g)) [Fin 10, Fin 20] [NaN, Fin 0.5] ()) =
       Inl (ValueError ''empty range for randrange()'')"
  by (simp add: selectPrediction_def tieCandidates_def py_randint_def)

text \<open>
  Claim C9, as amended: for a non-empty list of finite probabilities (no infinity, no
  NaN) every index passes the code's test, so for candidates of the same length the
  computed list is the whole of \<^verbatim>\<open>actualValues\<close> and is non-empty; a draw within the
  bounds handed to \<^verbatim>\<open>random.randint\<close> then indexes it in range and the selection
  returns a value.
\<close>

theorem C9_every_candidate_kept:
  assumes "probabilities \<noteq> []" and "\<forall>p\<in>set probabilities. isFinite p"
    and "length actualValues = length probabilities"
    and "rnd g 0 (int (length actualValues) - 1) = (r, g')"
    and "0 \<le> r" and "r \<le> int (length actualValues) - 1"
  shows "(\<exists>pMax. py_max probabilities = Inr pMax
            \<and> (\<forall>i<length probabilities.
                  flt (fsub (probabilities ! i) pMax) (Fin epsilon)))
         \<and> tieCandidates actualValues probabilities = Inr actualValues
         \<and> actualValues \<noteq> []
         \<and> selectPrediction rnd actualValues probabilities g = (Inr (actualValues ! nat r), g')"
proof -
  obtain rs where rs: "probabilities = map Fin rs"
    using finite_floats [OF assms(2)] by blast
  have rne: "rs \<noteq> []" using assms(1) rs by simp
  have len: "length actualValues = length rs" using assms(3) rs by simp
  have ne: "actualValues \<noteq> []" using rne len by auto
  have mx: "py_max probabilities = Inr (Fin (Max (set rs)))"
    unfolding rs by (rule py_max_finite [OF rne])
  have tst: "\<forall>i<length probabilities.
               flt (fsub (probabilities ! i) (Fin (Max (set rs)))) (Fin epsilon)"
    unfolding rs using rne by (simp add: code_test_finite del: nth_map)
  have tc: "tieCandidates actualValues probabilities = Inr actualValues"
    unfolding rs using rne len by (intro tieCandidates_finite) simp_all
  have rng: "(0::int) \<le> int (length actualValues) - 1" using assms(5,6) by linarith
  have sel: "selectPrediction rnd actualValues probabilities g = (Inr (actualValues ! nat r), g')"
    using rng assms(4,5,6) by (simp add: selectPrediction_def tc py_randint_def py_index_def)
  show ?thesis
    using mx tst ne tc sel by blast
qed

theorem C9_every_candidate_kept_witness:
  "[Fin 0.5, Fin 0.9, Fin 0.9] \<noteq> []
   \<and> isFinite (Fin 0.5) \<and> isFinite (Fin 0.9)
   \<and> length [Fin 10, Fin 20, Fin 30] = length [Fin 0.5, Fin 0.9, Fin 0.9]
   \<and> (\<lambda>g a b. (b, Suc g)) (0::nat) 0 (int (length [Fin 10, Fin 20, Fin 30]) - 1) = (2, 1)
   \<and> py_max [Fin 0.5, Fin 0.9, Fin 0.9] = Inr (Fin 0.9)
   \<and> flt (fsub ([Fin 0.5, Fin 0.9, Fin 0.9] ! 0) (Fin 0.9)) (Fin epsilon)
   \<and> tieCandidates [Fin 10, Fin 20, Fin 30] [Fin 0.5, Fin 0.9, Fin 0.9] =
       Inr [Fin 10, Fin 20, Fin 30]
   \<and> selectPrediction (\<lambda>g a b. (b, Suc g)) [Fin 10, Fin 20, Fin 30]
        [Fin 0.5, Fin 0.9, Fin 0.9] (0::nat) = (Inr (Fin 30), 1)"
  using C9_every_candidate_kept
          [of "[Fin 0.5, Fin 0.9, Fin 0.9]" "[Fin 10, Fin 20, Fin 30]"
              "\<lambda>g a b. (b, Suc g)" 0 2 1]
  by (simp add: epsilon_def)

section \<open>Properties of the driving loop\<close>

subsection \<open>The loop, tick by tick\<close>

lemma runTicks_append:
  "runTicks c (xs @ ys) w =
     (case runTicks c xs w of (Some e, w') \<Rightarrow> (Some e, w') | (None, w') \<Rightarrow> runTicks c ys w')"
  by (induction xs arbitrary: w) (auto split: prod.splits option.splits)


lemma runLoop_Suc:
  "runLoop c (Suc k) w =
     (case runLoop c k w of (Some e, w') \<Rightarrow> (Some e, w') | (None, w') \<Rightarrow> tick c k w')"
  by (simp add: runLoop_def runTicks_append split: prod.splits option.splits)

lemma runLoop_failed_stays:
  assumes "runLoop c k w = (Some e, w')" "k \<le> n"
  shows "runLoop c n w = (Some e, w')"
proof -
  have "[0..<n] = [0..<k] @ [k..<n]" using assms(2) by (metis le0 upt_add_eq_append le_Suc_ex)
  then show ?thesis using assms(1) by (simp add: runLoop_def runTicks_append)
qed

lemma tick_failure_writes_nothing:
  "tick c i w = (Some e, w') \<Longrightarrow> written w' = written w"
  by (auto simp: tick_def split: prod.splits option.splits sum.splits)

lemma tick_success_writes_one:
  "tick c i w = (None, w') \<Longrightarrow> length (written w') = Suc (length (written w))"
  by (auto simp: tick_def split: prod.splits option.splits sum.splits)

lemma runTicks_success_rows:
  "runTicks c idx w = (None, w') \<Longrightarrow> length (written w') = length (written w) + length idx"
proof (induction idx arbitrary: w)
  case Nil
  then show ?case by simp
next
  case (Cons i idx)
  then show ?case
    by (auto split: prod.splits option.splits dest!: tick_success_writes_one)
qed

lemma runNetwork_runs_loop:
  assumes "lookupRegions (hasRegion c) (net w)
             [''sensor'', ''spatialPoolerRegion'', ''temporalPoolerRegion'',
              ''SDRClassifierRegion''] = None"
  shows "runNetwork c w = runLoop c NUM_RECORDS w"
  using assms by (simp add: runNetwork_def)

lemma runNetwork_missing_region:
  assumes "lookupRegions (hasRegion c) (net w)
             [''sensor'', ''spatialPoolerRegion'', ''temporalPoolerRegion'',
              ''SDRClassifierRegion''] = Some e"
  shows "runNetwork c w = (Some e, w)"
  using assms by (simp add: runNetwork_def)

text \<open>
  Claim C7: a failure inside a tick aborts the run. If the first \<open>k\<close> ticks succeed and
  tick \<open>k\<close> (with \<open>k\<close> below the record count) raises \<open>e\<close>, then the loop ends with exactly
  that \<open>e\<close> and in the state the failing tick left: nothing is retried or skipped, no
  later tick runs, and the writer holds the \<open>k\<close> rows of the ticks before, with no row
  for the failed tick.
\<close>

theorem C7_failed_tick_aborts_run:
  assumes "k < n" and "runLoop c k w = (None, wk)" and "tick c k wk = (Some e, w')"
  shows "runLoop c n w = (Some e, w')
         \<and> written w' = written wk
         \<and> length (written w') = length (written w) + k"
proof -
  have step: "runLoop c (Suc k) w = (Some e, w')"
    using assms(2,3) by (simp add: runLoop_Suc)
  have le: "Suc k \<le> n" using assms(1) by simp
  have run: "runLoop c n w = (Some e, w')"
    by (rule runLoop_failed_stays [OF step le])
  have same: "written w' = written wk"
    using assms(3) by (rule tick_failure_writes_nothing)
  have "runTicks c [0..<k] w = (None, wk)"
    using assms(2) by (simp only: runLoop_def)
  then have "length (written wk) = length (written w) + length [0..<k]"
    by (rule runTicks_success_rows)
  then have rows: "length (written wk) = length (written w) + k" by simp
  show ?thesis using run same rows by simp
qed

theorem C7_failed_tick_aborts_run_witness:
  "(1::nat) < 3
   \<and> runLoop (sampleEngine 1) 1 \<lparr>net = 0, gen = 0, written = []\<rparr> =
       (None, \<lparr>net = 1, gen = 1, written = [(2, Fin 1, Fin 10)]\<rparr>)
   \<and> tick (sampleEngine 1) 1 \<lparr>net = 1, gen = 1, written = [(2, Fin 1, Fin 10)]\<rparr> =
       (Some (EngineError ''no more records''), \<lparr>net = 1, gen = 1, written = [(2, Fin 1, Fin 10)]\<rparr>)
   \<and> runLoop (sampleEngine 1) 3 \<lparr>net = 0, gen = 0, written = []\<rparr> =
       (Some (EngineError ''no more records''), \<lparr>net = 1, gen = 1, written = [(2, Fin 1, Fin 10)]\<rparr>)
   \<and> length (written \<lparr>net = 1::nat, gen = 1::nat, written = [(2, Fin 1, Fin 10)]\<rparr>) =
       length (written \<lparr>net = 0::nat, gen = 0::nat, written = []\<rparr>) + 1"
proof -
  have k: "(1::nat) < 3" by simp
  have pre: "runLoop (sampleEngine 1) 1 \<lparr>net = 0, gen = 0, written = []\<rparr> =
       (None, \<lparr>net = 1, gen = 1, written = [(2, Fin 1, Fin 10)]\<rparr>)"
    by (simp add: runLoop_def tick_def readOutputs_def sampleEngine_def
      selectPrediction_def tieCandidates_def epsilon_def py_randint_def py_index_def rowIndex_def)
  have bad: "tick (sampleEngine 1) 1 \<lparr>net = 1, gen = 1, written = [(2, Fin 1, Fin 10)]\<rparr> =
       (Some (EngineError ''no more records''), \<lparr>net = 1, gen = 1, written = [(2, Fin 1, Fin 10)]\<rparr>)"
    by (simp add: tick_def sampleEngine_def)
  show ?thesis
    using C7_failed_tick_aborts_run [OF k pre bad] k pre bad by simp
qed

text \<open>
  Claim C8: for a record count of 0 the loop returns without an error and leaves the
  state as it was, whatever the collaborators are: \<^verbatim>\<open>network.run\<close> is not invoked, no
  value is read or drawn, and no row is written.
\<close>

theorem C8_zero_records: "runLoop c 0 w = (None, w)"
  by (simp add: runLoop_def)

subsection \<open>Rows as a function of what is read and drawn\<close>





lemma sample_run2:
  "runLoop (sampleEngine 5) 2 \<lparr>net = 0, gen = 0, written = []\<rparr> =
     (None, \<lparr>net = 2, gen = 2, written = [(2, Fin 1, Fin 10), (2, Fin 2, Fin 20)]\<rparr>)"
  by (simp add: runLoop_def numeral_2_eq_2 tick_def readOutputs_def sampleEngine_def
      selectPrediction_def tieCandidates_def epsilon_def py_randint_def py_index_def rowIndex_def)









section \<open>Properties of createNetwork\<close>

lemma createNetwork_globals:
  "snd (createNetwork getWidth ds g) =
     g\<lparr>SP_PARAMS := AList.update ''inputWidth'' (PInt (getWidth createEncoder)) (SP_PARAMS g)\<rparr>"
  by (simp add: createNetwork_def Let_def)

lemma createNetwork_sp_region:
  "map nodeParams (filter (\<lambda>r. regionName r = ''spatialPoolerRegion'')
                          (regions (fst (createNetwork getWidth ds g)))) =
     [AList.update ''inputWidth'' (PInt (getWidth createEncoder)) (SP_PARAMS g)]"
  by (simp add: createNetwork_def Let_def Network_def addRegion_def addLink_def setParameter_def)

text \<open>
  Claim C10: \<^verbatim>\<open>createNetwork\<close> changes the module-level \<^verbatim>\<open>SP_PARAMS\<close>: the key
  \<^verbatim>\<open>inputWidth\<close>, 0 when the module is loaded, is overwritten with the width of the
  sensor's encoder, and the spatial pooler region is created with the dictionary as
  updated. Every other key of \<^verbatim>\<open>SP_PARAMS\<close> keeps its value, and \<^verbatim>\<open>TP_PARAMS\<close> and
  \<^verbatim>\<open>CL_PARAMS\<close> are unchanged.
\<close>

theorem C10_createNetwork_sets_inputWidth_only:
  "map_of (SP_PARAMS moduleGlobals) ''inputWidth'' = Some (PInt 0)
   \<and> map_of (SP_PARAMS (snd (createNetwork getWidth ds g))) ''inputWidth'' =
       Some (PInt (getWidth createEncoder))
   \<and> (\<forall>key. key \<noteq> ''inputWidth'' \<longrightarrow>
         map_of (SP_PARAMS (snd (createNetwork getWidth ds g))) key = map_of (SP_PARAMS g) key)
   \<and> TP_PARAMS (snd (createNetwork getWidth ds g)) = TP_PARAMS g
   \<and> CL_PARAMS (snd (createNetwork getWidth ds g)) = CL_PARAMS g
   \<and> map nodeParams (filter (\<lambda>r. regionName r = ''spatialPoolerRegion'')
                            (regions (fst (createNetwork getWidth ds g)))) =
       [SP_PARAMS (snd (createNetwork getWidth ds g))]"
proof -
  have sp: "SP_PARAMS (snd (createNetwork getWidth ds g)) =
              AList.update ''inputWidth'' (PInt (getWidth createEncoder)) (SP_PARAMS g)"
    by (simp add: createNetwork_globals)
  have init: "map_of (SP_PARAMS moduleGlobals) ''inputWidth'' = Some (PInt 0)"
    by (simp add: moduleGlobals_def)
  show ?thesis
    unfolding sp createNetwork_sp_region
    using init by (simp add: createNetwork_globals update_conv')
qed

theorem C10_createNetwork_sets_inputWidth_only_witness:
  "''columnCount'' \<noteq> ''inputWidth''
   \<and> map_of (SP_PARAMS (snd (createNetwork (\<lambda>enc. 104) ''rec-center-hourly.csv'' moduleGlobals)))
        ''inputWidth'' = Some (PInt 104)
   \<and> map_of (SP_PARAMS (snd (createNetwork (\<lambda>enc. 104) ''rec-center-hourly.csv'' moduleGlobals)))
        ''columnCount'' = Some (PInt 2048)
   \<and> TP_PARAMS (snd (createNetwork (\<lambda>enc. 104) ''rec-center-hourly.csv'' moduleGlobals)) =
       TP_PARAMS moduleGlobals"
  using C10_createNetwork_sets_inputWidth_only
          [of "\<lambda>enc. 104" "''rec-center-hourly.csv''" moduleGlobals]
  by (simp add: moduleGlobals_def)

end
